theory Spec2Isabelle
  imports Main
begin

section \<open>HTTP and gRPC values\<close>

text \<open>
  The server of \<^verbatim>\<open>server/server.go\<close> wraps an HTTP server and a gRPC server.
  A request is the envelope that both transports carry (method, path, headers, body);
  a response is status, headers and body.
\<close>

record request =
  req_method :: string
  req_path :: string
  req_headers :: "(string \<times> string) list"
  req_body :: string

record response =
  resp_code :: nat
  resp_headers :: "(string \<times> string) list"
  resp_body :: string

text \<open>
  What a request leaves behind is a list of events: log lines, samples of the
  \<^verbatim>\<open>request_duration_seconds\<close> histogram (keyed by the histogram's name and the
  labels \<^verbatim>\<open>method, route, status_code, ws\<close>), tracing spans, and whatever user code
  emits. A handler returns its response together with the events it emitted, in order.
\<close>

datatype status_label = HTTPStatus nat | RPCSuccess | RPCError

datatype event =
    LogLine string string status_label
  | Sample string string string status_label bool
  | SpanStart string
  | SpanFinish string
  | UserEvent string

type_synonym handler = "request \<Rightarrow> response \<times> event list"

text \<open>\<^verbatim>\<open>middleware.Interface\<close>: its one method \<^verbatim>\<open>Wrap\<close> maps a handler to a handler.\<close>

type_synonym http_middleware = "handler \<Rightarrow> handler"

datatype grpc_error = Unimplemented | RPCFailure string

type_synonym unary_handler = "request \<Rightarrow> (grpc_error + response) \<times> event list"

text \<open>
  \<^verbatim>\<open>grpc.UnaryServerInterceptor\<close>: it receives the full method name of the call
  (\<^verbatim>\<open>info.FullMethod\<close>), the next handler and the request.
\<close>

type_synonym unary_interceptor = "string \<Rightarrow> unary_handler \<Rightarrow> unary_handler"

fun is_Sample :: "event \<Rightarrow> bool" where
  "is_Sample (Sample h m r s ws) = True"
| "is_Sample e = False"

fun is_LogLine :: "event \<Rightarrow> bool" where
  "is_LogLine (LogLine m r s) = True"
| "is_LogLine e = False"

definition samples :: "event list \<Rightarrow> event list" where
  "samples evs = filter is_Sample evs"

definition log_lines :: "event list \<Rightarrow> event list" where
  "log_lines evs = filter is_LogLine evs"

section \<open>Config\<close>

text \<open>
  \<^verbatim>\<open>type Config struct\<close>. A \<^verbatim>\<open>time.Duration\<close> is a signed number of nanoseconds;
  the code does no arithmetic on it, so it is an \<^typ>\<open>int\<close>.
\<close>

record Config =
  MetricsNamespace :: string
  LogSuccess :: bool
  HTTPListenPort :: int
  GRPCListenPort :: int
  ServerGracefulShutdownTimeout :: int
  HTTPServerReadTimeout :: int
  HTTPServerWriteTimeout :: int
  HTTPServerIdleTimeout :: int
  GRPCMiddleware :: "unary_interceptor list"
  HTTPMiddleware :: "http_middleware list"

definition Second :: int where
  "Second = 1000000000"

text \<open>
  \<^verbatim>\<open>RegisterFlags\<close>: each \<^verbatim>\<open>f.XxxVar(&cfg.Field, name, default, usage)\<close> stores the
  default in the field; parsing a command line without these flags leaves them there.
\<close>

definition RegisterFlags :: "Config \<Rightarrow> Config" where
  "RegisterFlags c = c
     \<lparr> LogSuccess := False,
       HTTPListenPort := 80,
       GRPCListenPort := 9095,
       ServerGracefulShutdownTimeout := 5 * Second,
       HTTPServerReadTimeout := 5 * Second,
       HTTPServerWriteTimeout := 5 * Second,
       HTTPServerIdleTimeout := 120 * Second \<rparr>"

section \<open>The router\<close>

text \<open>
  \<^verbatim>\<open>*mux.Router\<close>. The source registers routes with \<^verbatim>\<open>Handle(path, h)\<close> and
  \<^verbatim>\<open>PathPrefix(prefix).Handler(h)\<close>; the first registered route that matches serves
  the request, and no match is a 404. Path templates with variables are the router's own
  business and are not modelled.
\<close>

datatype matcher = Path string | PathPrefix string

type_synonym route = "matcher \<times> handler"

type_synonym router = "route list"

fun matches :: "matcher \<Rightarrow> string \<Rightarrow> bool" where
  "matches (Path p) s = (s = p)"
| "matches (PathPrefix p) s = (take (length p) s = p)"

fun template :: "matcher \<Rightarrow> string" where
  "template (Path p) = p"
| "template (PathPrefix p) = p"

fun route_match :: "router \<Rightarrow> request \<Rightarrow> route option" where
  "route_match [] rq = None"
| "route_match ((m, h) # rs) rq =
     (if matches m (req_path rq) then Some (m, h) else route_match rs rq)"

definition NewRouter :: router where
  "NewRouter = []"

definition Handle :: "string \<Rightarrow> handler \<Rightarrow> router \<Rightarrow> router" where
  "Handle p h rt = rt @ [(Path p, h)]"

definition PathPrefix_Handler :: "string \<Rightarrow> handler \<Rightarrow> router \<Rightarrow> router" where
  "PathPrefix_Handler p h rt = rt @ [(PathPrefix p, h)]"

definition NotFound :: response where
  "NotFound = \<lparr> resp_code = 404, resp_headers = [], resp_body = ''404 page not found'' \<rparr>"

definition ServeHTTP :: "router \<Rightarrow> handler" where
  "ServeHTTP rt rq =
     (case route_match rt rq of
        None \<Rightarrow> (NotFound, [])
      | Some (m, h) \<Rightarrow> h rq)"

definition route_template :: "router \<Rightarrow> request \<Rightarrow> string" where
  "route_template rt rq =
     (case route_match rt rq of
        None \<Rightarrow> ''other''
      | Some (m, h) \<Rightarrow> template m)"

section \<open>Collaborators outside the source file\<close>

text \<open>
  The handlers that \<^verbatim>\<open>New\<close> mounts (\<^verbatim>\<open>prometheus.Handler()\<close>, \<^verbatim>\<open>loki.Handler()\<close>,
  \<^verbatim>\<open>http.DefaultServeMux\<close>) come from other packages; they are parameters. So is the
  test that says which HTTP status codes the logging middleware counts as failures.
\<close>

record externals =
  prometheus_Handler :: handler
  loki_Handler :: handler
  DefaultServeMux :: handler
  is_failure :: "nat \<Rightarrow> bool"

subsection \<open>Package middleware\<close>

text \<open>
  Modelled from the spec: \<^verbatim>\<open>middleware.Merge\<close>, the middleware chain builder of
  package \<^verbatim>\<open>middleware\<close>, which is not among the sources. "Given an ordered list of
  transformer specifications and a base handler, returns a single handler that applies
  each transformer in list order around the base handler (outermost-first)."
\<close>

fun Merge :: "http_middleware list \<Rightarrow> http_middleware" where
  "Merge [] next = next"
| "Merge (m # ms) next = m (Merge ms next)"

text \<open>
  Modelled from the spec: \<^verbatim>\<open>middleware.Log\<close>, not among the sources. "Request/response
  logging: logs method, route, status, duration; success-path logging is gated by the
  success-logging flag (failures always logged)." The duration is not modelled.
\<close>

definition Log_Wrap :: "(nat \<Rightarrow> bool) \<Rightarrow> bool \<Rightarrow> http_middleware" where
  "Log_Wrap failed logSuccess next rq =
     (let (rsp, evs) = next rq
      in (rsp, evs @
           (if logSuccess \<or> failed (resp_code rsp)
            then [LogLine (req_method rq) (req_path rq) (HTTPStatus (resp_code rsp))]
            else [])))"

definition is_ws :: "request \<Rightarrow> bool" where
  "is_ws rq = ((''Upgrade'', ''websocket'') \<in> set (req_headers rq))"

text \<open>
  Modelled from the spec: \<^verbatim>\<open>middleware.Instrument\<close>, not among the sources. "Latency
  instrumentation: records elapsed wall-clock time into the shared histogram under
  (method, matched route template, status-class, streaming-flag) the moment the handler
  returns." The histogram is named by its fully-qualified metric name; the field
  \<^verbatim>\<open>RouteMatcher\<close> is the router.
\<close>

definition Instrument_Wrap :: "string \<Rightarrow> router \<Rightarrow> http_middleware" where
  "Instrument_Wrap Duration RouteMatcher next rq =
     (let (rsp, evs) = next rq
      in (rsp, evs @
           [Sample Duration (req_method rq) (route_template RouteMatcher rq)
              (HTTPStatus (resp_code rsp)) (is_ws rq)]))"

text \<open>
  Modelled from the spec: \<^verbatim>\<open>nethttp.Middleware\<close> with the global tracer. "Trace-context
  propagation: extracts or creates a distributed-trace span, injects it into the
  request-scoped context, and finishes the span when the handler completes."
\<close>

definition Tracing_Wrap :: http_middleware where
  "Tracing_Wrap next rq =
     (let (rsp, evs) = next rq
      in (rsp, SpanStart (''HTTP '' @ req_method rq) # evs
               @ [SpanFinish (''HTTP '' @ req_method rq)]))"

text \<open>
  Modelled from the spec: the three gRPC interceptors \<^verbatim>\<open>middleware.ServerLoggingInterceptor\<close>,
  \<^verbatim>\<open>middleware.ServerInstrumentInterceptor\<close> and \<^verbatim>\<open>otgrpc.OpenTracingServerInterceptor\<close>,
  not among the sources; the same three entries as on the HTTP side, for a unary call.
\<close>

fun rpc_label :: "grpc_error + response \<Rightarrow> status_label" where
  "rpc_label (Inl e) = RPCError"
| "rpc_label (Inr r) = RPCSuccess"

definition ServerLoggingInterceptor :: "bool \<Rightarrow> unary_interceptor" where
  "ServerLoggingInterceptor logSuccess info next rq =
     (let (res, evs) = next rq
      in (res, evs @
           (if logSuccess \<or> rpc_label res = RPCError
            then [LogLine ''gRPC'' info (rpc_label res)]
            else [])))"

definition ServerInstrumentInterceptor :: "string \<Rightarrow> unary_interceptor" where
  "ServerInstrumentInterceptor Duration info next rq =
     (let (res, evs) = next rq
      in (res, evs @ [Sample Duration ''gRPC'' info (rpc_label res) False]))"

definition OpenTracingServerInterceptor :: unary_interceptor where
  "OpenTracingServerInterceptor info next rq =
     (let (res, evs) = next rq
      in (res, SpanStart info # evs @ [SpanFinish info]))"

text \<open>
  Modelled from the spec: \<^verbatim>\<open>grpc_middleware.ChainUnaryServer\<close>, the chain builder on the
  gRPC side: the interceptors run in list order, the first one outermost.
\<close>

fun ChainUnaryServer :: "unary_interceptor list \<Rightarrow> unary_interceptor" where
  "ChainUnaryServer [] info next = next"
| "ChainUnaryServer (i # is) info next = i info (ChainUnaryServer is info next)"

subsection \<open>Package httpgrpc\<close>

text \<open>
  Modelled from the spec: \<^verbatim>\<open>httpgrpc.NewServer\<close> and \<^verbatim>\<open>httpgrpc.RegisterHTTPServer\<close>,
  not among the sources. The bridge "reconstructs an in-process HTTP request object,
  dispatches that request directly against the same route table used by the native HTTP
  listener, captures the resulting status/headers/body, and serializes them back as an RPC
  response". \<^verbatim>\<open>NewServer\<close> receives the router pointer, so the service reads the router
  as it is when the call arrives.
\<close>

definition httpgrpc_NewServer :: "router \<Rightarrow> unary_handler" where
  "httpgrpc_NewServer rt rq = (let (rsp, evs) = ServeHTTP rt rq in (Inr rsp, evs))"

definition bridge_method :: string where
  "bridge_method = ''/httpgrpc.HTTP/Handle''"

section \<open>The process\<close>

text \<open>
  What \<^verbatim>\<open>New\<close> and \<^verbatim>\<open>Run\<close> touch outside the \<^verbatim>\<open>Server\<close> value: the TCP ports, the
  default Prometheus registry, the goroutines, the clock.
\<close>

record listener =
  lid :: nat
  lport :: int

datatype task = HTTPServe nat | GRPCServe nat | ForcedStopTimer nat

datatype gphase = GIdle | GServing | GDraining | GStoppedGraceful | GStoppedForced

datatype hphase = HIdle | HServing | HDraining | HDrained | HAbandoned

datatype lifecycle = Idle | Running | ShuttingDown | Stopped

datatype revent =
    SpawnHTTPServe
  | BridgeRegistered
  | SpawnGRPCServe
  | LoopReturned
  | SpawnTimer nat
  | GracefulStopCalled
  | GracefulStopReturned
  | ShutdownCalled
  | ShutdownReturned
  | TimerCancel
  | TimerGRPCStop
  | RunReturned

record world =
  foreign_ports :: "int list"
  open_listeners :: "listener list"
  next_lid :: nat
  registry :: "string list"
  goroutines :: "task list"
  clock :: nat
  timer :: "nat option"
  ctx_cancelled :: bool
  grpc_phase :: gphase
  http_phase :: hphase
  phase :: lifecycle
  trace :: "(nat \<times> revent) list"

datatype error = BindError int

datatype 'a outcome = Ok 'a | Err error | Panic string

text \<open>
  \<^verbatim>\<open>net.Listen("tcp", fmt.Sprintf(":%d", port))\<close>: fails for a port outside 0..65535
  and for a port that some socket holds, of this process or of another. Port 0 asks the
  kernel for a free port and never collides.
\<close>

definition port_in_use :: "world \<Rightarrow> int \<Rightarrow> bool" where
  "port_in_use w p = (p \<in> set (foreign_ports w) \<or> p \<in> set (map lport (open_listeners w)))"

definition Listen :: "int \<Rightarrow> world \<Rightarrow> (error + listener) \<times> world" where
  "Listen p w =
     (if p < 0 \<or> 65535 < p \<or> (p \<noteq> 0 \<and> port_in_use w p) then (Inl (BindError p), w)
      else let l = \<lparr> lid = next_lid w, lport = p \<rparr>
           in (Inr l, w \<lparr> open_listeners := open_listeners w @ [l],
                          next_lid := Suc (next_lid w) \<rparr>))"

text \<open>
  \<^verbatim>\<open>prometheus.BuildFQName(namespace, "", name)\<close> and \<^verbatim>\<open>prometheus.MustRegister\<close> on
  the default registry: registering a metric name a second time panics.
\<close>

definition BuildFQName :: "string \<Rightarrow> string \<Rightarrow> string" where
  "BuildFQName namespace name =
     (if name = [] then [] else if namespace = [] then name else namespace @ ''_'' @ name)"

definition MustRegister :: "string \<Rightarrow> world \<Rightarrow> world option" where
  "MustRegister fq w =
     (if fq \<in> set (registry w) then None else Some (w \<lparr> registry := registry w @ [fq] \<rparr>))"

section \<open>Server\<close>

text \<open>
  \<^verbatim>\<open>type Server struct\<close>. The router and the gRPC server are pointers in the source:
  the fields \<open>HTTP\<close> and \<open>GRPC\<close> hold what they point to, and every component that
  keeps the router pointer (the HTTP server's handler, the instrumentation's route
  matcher, the bridge) takes the router's current contents when it is used. Routes that
  are registered on \<^verbatim>\<open>s.HTTP\<close> after \<^verbatim>\<open>New\<close> are seen by all of them.
\<close>

record signals_Handler =
  quit :: bool

record http_Server =
  ReadTimeout :: int
  WriteTimeout :: int
  IdleTimeout :: int
  Handler :: "router \<Rightarrow> handler"

record grpc_Server =
  interceptor :: unary_interceptor
  services :: "(string \<times> (router \<Rightarrow> unary_handler)) list"

record Server =
  cfg :: Config
  handler :: signals_Handler
  httpListener :: listener
  grpcListener :: listener
  httpServer :: http_Server
  HTTP :: router
  GRPC :: grpc_Server

text \<open>
  Modelled from the spec: \<^verbatim>\<open>signals.NewHandler\<close>, \<^verbatim>\<open>Handler.Stop\<close> and
  \<^verbatim>\<open>Handler.Loop\<close> of package \<^verbatim>\<open>signals\<close>, not among the sources. \<^verbatim>\<open>Stop\<close>
  "requests shutdown; safe to call from another task; idempotent": it latches a flag.
  \<^verbatim>\<open>Loop\<close> "blocks until stopped".
\<close>

definition signals_NewHandler :: signals_Handler where
  "signals_NewHandler = \<lparr> quit = False \<rparr>"


definition request_duration :: "Config \<Rightarrow> string" where
  "request_duration c = BuildFQName (MetricsNamespace c) ''request_duration_seconds''"

definition grpcMiddleware :: "Config \<Rightarrow> unary_interceptor list" where
  "grpcMiddleware c =
     [ ServerLoggingInterceptor (LogSuccess c),
       ServerInstrumentInterceptor (request_duration c),
       OpenTracingServerInterceptor ] @ GRPCMiddleware c"

definition httpMiddleware :: "externals \<Rightarrow> Config \<Rightarrow> router \<Rightarrow> http_middleware list" where
  "httpMiddleware x c rt =
     [ Log_Wrap (is_failure x) (LogSuccess c),
       Instrument_Wrap (request_duration c) rt,
       Tracing_Wrap ] @ HTTPMiddleware c"

definition initial_router :: "externals \<Rightarrow> router" where
  "initial_router x =
     PathPrefix_Handler ''/debug/pprof'' (DefaultServeMux x)
       (Handle ''/traces'' (loki_Handler x)
         (Handle ''/metrics'' (prometheus_Handler x) NewRouter))"

text \<open>
  \<^verbatim>\<open>func New(cfg Config) (*Server, error)\<close>, statement by statement. Each
  \<^verbatim>\<open>return nil, err\<close> is an \<open>Err\<close>; the panic of \<^verbatim>\<open>MustRegister\<close> is a \<open>Panic\<close>.
\<close>

definition New :: "externals \<Rightarrow> Config \<Rightarrow> world \<Rightarrow> Server outcome \<times> world" where
  "New x c w =
     (case Listen (HTTPListenPort c) w of
        (Inl err, w1) \<Rightarrow> (Err err, w1)
      | (Inr httpL, w1) \<Rightarrow>
     (case Listen (GRPCListenPort c) w1 of
        (Inl err, w2) \<Rightarrow> (Err err, w2)
      | (Inr grpcL, w2) \<Rightarrow>
     (case MustRegister (request_duration c) w2 of
        None \<Rightarrow> (Panic ''duplicate metrics collector registration attempted'', w2)
      | Some w3 \<Rightarrow>
          (Ok \<lparr> cfg = c,
                handler = signals_NewHandler,
                httpListener = httpL,
                grpcListener = grpcL,
                httpServer =
                  \<lparr> ReadTimeout = HTTPServerReadTimeout c,
                    WriteTimeout = HTTPServerWriteTimeout c,
                    IdleTimeout = HTTPServerIdleTimeout c,
                    Handler = (\<lambda>rt. Merge (httpMiddleware x c rt) (ServeHTTP rt)) \<rparr>,
                HTTP = initial_router x,
                GRPC =
                  \<lparr> interceptor = ChainUnaryServer (grpcMiddleware c),
                    services = [] \<rparr> \<rparr>,
           w3))))"

section \<open>Serving a request\<close>

text \<open>
  A request on the HTTP listener goes to \<^verbatim>\<open>httpServer.Handler\<close>. A unary call on
  the gRPC listener goes to the registered service method through the server's
  interceptor; a method that nobody registered is answered without the interceptor.
\<close>

definition serve_http :: "Server \<Rightarrow> handler" where
  "serve_http s rq = Handler (httpServer s) (HTTP s) rq"

definition serve_grpc :: "Server \<Rightarrow> string \<Rightarrow> unary_handler" where
  "serve_grpc s m rq =
     (case map_of (services (GRPC s)) m of
        None \<Rightarrow> (Inl Unimplemented, [])
      | Some h \<Rightarrow> interceptor (GRPC s) m (h (HTTP s)) rq)"

definition RegisterHTTPServer :: "grpc_Server \<Rightarrow> (router \<Rightarrow> unary_handler) \<Rightarrow> grpc_Server" where
  "RegisterHTTPServer g srv = g \<lparr> services := services g @ [(bridge_method, srv)] \<rparr>"

section \<open>Run and Stop\<close>

text \<open>
  Time is a counter of nanoseconds. What the surroundings decide is a parameter of
  \<^verbatim>\<open>Run\<close>: when the stop signal arrives (\<open>None\<close>: never), how long the calls in
  flight on the gRPC server need once \<^verbatim>\<open>GracefulStop\<close> is called, and how long the
  connections of the HTTP server need once \<^verbatim>\<open>Shutdown\<close> is called (\<open>None\<close>: they
  never finish by themselves).
\<close>

record env =
  stop_at :: "nat option"
  grpc_drain :: "nat option"
  http_drain :: "nat option"

definition go :: "task \<Rightarrow> world \<Rightarrow> world" where
  "go t w = w \<lparr> goroutines := goroutines w @ [t] \<rparr>"

definition emit :: "revent \<Rightarrow> world \<Rightarrow> world" where
  "emit ev w = w \<lparr> trace := trace w @ [(clock w, ev)] \<rparr>"

definition close_listener :: "listener \<Rightarrow> world \<Rightarrow> world" where
  "close_listener l w =
     w \<lparr> open_listeners := filter (\<lambda>k. lid k \<noteq> lid l) (open_listeners w) \<rparr>"

text \<open>
  \<^verbatim>\<open>s.handler.Loop()\<close> (modelled from the spec, see above): returns at once when
  \<^verbatim>\<open>Stop\<close> was called before, otherwise when the stop signal arrives.
\<close>

definition Loop :: "env \<Rightarrow> signals_Handler \<Rightarrow> world \<Rightarrow> world option" where
  "Loop e h w =
     (if quit h then Some w
      else case stop_at e of
             None \<Rightarrow> None
           | Some t \<Rightarrow> Some (w \<lparr> clock := max (clock w) t \<rparr>))"

text \<open>
  The body of the goroutine that \<^verbatim>\<open>Run\<close> starts last, after its \<^verbatim>\<open>time.Sleep\<close>:
  \<^verbatim>\<open>cancel(); s.GRPC.Stop()\<close>. \<^verbatim>\<open>Stop\<close> closes the listener and aborts the calls in
  flight; on a server that has drained there is nothing left to abort.
\<close>

definition timer_body :: "Server \<Rightarrow> nat \<Rightarrow> world \<Rightarrow> world" where
  "timer_body s f w =
     (let w1 = w \<lparr> clock := max (clock w) f, timer := None \<rparr>;
          w2 = emit TimerCancel (w1 \<lparr> ctx_cancelled := True \<rparr>);
          w3 = emit TimerGRPCStop (close_listener (grpcListener s) w2)
      in w3 \<lparr> grpc_phase :=
                (if grpc_phase w3 = GStoppedGraceful then GStoppedGraceful
                 else GStoppedForced) \<rparr>)"

text \<open>
  A blocking call that needs \<open>d\<close> to finish by itself (\<open>None\<close>: never) and that the
  timer goroutine releases when it fires first. The result says whether the call
  finished by itself; \<open>None\<close> is a call that never returns.
\<close>

definition await :: "Server \<Rightarrow> nat option \<Rightarrow> world \<Rightarrow> (bool \<times> world) option" where
  "await s d w =
     (case timer w of
        None \<Rightarrow>
          (case d of
             None \<Rightarrow> None
           | Some n \<Rightarrow> Some (True, w \<lparr> clock := clock w + n \<rparr>))
      | Some f \<Rightarrow>
          (case d of
             None \<Rightarrow> Some (False, timer_body s f w)
           | Some n \<Rightarrow>
               if clock w + n \<le> f then Some (True, w \<lparr> clock := clock w + n \<rparr>)
               else Some (False, timer_body s f w)))"

text \<open>
  \<^verbatim>\<open>s.GRPC.GracefulStop()\<close>: stops accepting, then blocks until the calls in flight
  are done; a concurrent \<^verbatim>\<open>Stop\<close> releases it.
\<close>

definition GracefulStop :: "env \<Rightarrow> Server \<Rightarrow> world \<Rightarrow> world option" where
  "GracefulStop e s w =
     (let w1 = emit GracefulStopCalled w
      in if grpc_phase w1 = GStoppedGraceful \<or> grpc_phase w1 = GStoppedForced
         then Some (emit GracefulStopReturned w1)
         else case await s (grpc_drain e)
                     ((close_listener (grpcListener s) w1) \<lparr> grpc_phase := GDraining \<rparr>) of
                None \<Rightarrow> None
              | Some (True, w2) \<Rightarrow>
                  Some (emit GracefulStopReturned (w2 \<lparr> grpc_phase := GStoppedGraceful \<rparr>))
              | Some (False, w2) \<Rightarrow> Some (emit GracefulStopReturned w2))"

text \<open>
  \<^verbatim>\<open>s.httpServer.Shutdown(httpServerCtx)\<close>: closes the listener, returns when no
  connection is active, and gives up waiting when the context is cancelled.
\<close>

definition Shutdown :: "env \<Rightarrow> Server \<Rightarrow> world \<Rightarrow> world option" where
  "Shutdown e s w =
     (let w1 = (close_listener (httpListener s) (emit ShutdownCalled w)) \<lparr> http_phase := HDraining \<rparr>
      in if http_drain e = Some 0 then Some (emit ShutdownReturned (w1 \<lparr> http_phase := HDrained \<rparr>))
         else if ctx_cancelled w1
         then Some (emit ShutdownReturned (w1 \<lparr> http_phase := HAbandoned \<rparr>))
         else case await s (http_drain e) w1 of
                None \<Rightarrow> None
              | Some (True, w2) \<Rightarrow>
                  Some (emit ShutdownReturned (w2 \<lparr> http_phase := HDrained \<rparr>))
              | Some (False, w2) \<Rightarrow>
                  Some (emit ShutdownReturned (w2 \<lparr> http_phase := HAbandoned \<rparr>)))"

text \<open>
  \<^verbatim>\<open>func (s *Server) Run()\<close>, statement by statement. The two deferred calls run when
  the function returns, last deferred first: \<^verbatim>\<open>s.GRPC.GracefulStop()\<close>, then
  \<^verbatim>\<open>s.httpServer.Shutdown(httpServerCtx)\<close>. \<open>None\<close> is a \<^verbatim>\<open>Run\<close> that never
  returns.
\<close>

definition Run :: "env \<Rightarrow> Server \<Rightarrow> world \<Rightarrow> (Server \<times> world) option" where
  "Run e s w =
     (let w1 = emit SpawnHTTPServe ((go (HTTPServe (lid (httpListener s))) w) \<lparr> http_phase := HServing \<rparr>);
          w2 = w1 \<lparr> ctx_cancelled := False \<rparr>;
          s1 = s \<lparr> GRPC := RegisterHTTPServer (GRPC s) httpgrpc_NewServer \<rparr>;
          w3 = emit BridgeRegistered w2;
          w4 = (emit SpawnGRPCServe ((go (GRPCServe (lid (grpcListener s1))) w3) \<lparr> grpc_phase := GServing \<rparr>))
                 \<lparr> phase := Running \<rparr>
      in case Loop e (handler s1) w4 of
           None \<Rightarrow> None
         | Some w5 \<Rightarrow>
            (let w6 = (emit LoopReturned w5) \<lparr> phase := ShuttingDown \<rparr>;
                 f = clock w6 + nat (ServerGracefulShutdownTimeout (cfg s1));
                 w7 = (emit (SpawnTimer f) (go (ForcedStopTimer f) w6)) \<lparr> timer := Some f \<rparr>
             in (case GracefulStop e s1 w7 of
                   None \<Rightarrow> None
                 | Some w8 \<Rightarrow>
                    (case Shutdown e s1 w8 of
                       None \<Rightarrow> None
                     | Some w9 \<Rightarrow> Some (s1, (emit RunReturned w9) \<lparr> phase := Stopped \<rparr>)))))"


text \<open>Letting time pass up to \<open>t\<close> after \<^verbatim>\<open>Run\<close>: a timer that is due fires.\<close>

definition advance :: "nat \<Rightarrow> Server \<Rightarrow> world \<Rightarrow> world" where
  "advance t s w =
     (case timer w of
        None \<Rightarrow> w \<lparr> clock := max (clock w) t \<rparr>
      | Some f \<Rightarrow>
          if f \<le> t then (let w1 = timer_body s f w in w1 \<lparr> clock := max (clock w1) t \<rparr>)
          else w \<lparr> clock := max (clock w) t \<rparr>)"

section \<open>A concrete server\<close>

text \<open>
  The scenario of the specification: ports 8080 and 9095, a graceful-shutdown timeout of
  two seconds, one route \<^verbatim>\<open>/ping\<close> that answers \<^verbatim>\<open>200 "pong"\<close>.
\<close>

definition ok_response :: "string \<Rightarrow> response" where
  "ok_response b = \<lparr> resp_code = 200, resp_headers = [], resp_body = b \<rparr>"

definition x0 :: externals where
  "x0 = \<lparr> prometheus_Handler = (\<lambda>rq. (ok_response ''metrics'', [])),
           loki_Handler = (\<lambda>rq. (ok_response ''traces'', [])),
           DefaultServeMux = (\<lambda>rq. (ok_response ''pprof'', [])),
           is_failure = (\<lambda>code. 500 \<le> code) \<rparr>"

definition cfg0 :: Config where
  "cfg0 = (RegisterFlags
             \<lparr> MetricsNamespace = ''app'', LogSuccess = False,
               HTTPListenPort = 0, GRPCListenPort = 0,
               ServerGracefulShutdownTimeout = 0, HTTPServerReadTimeout = 0,
               HTTPServerWriteTimeout = 0, HTTPServerIdleTimeout = 0,
               GRPCMiddleware = [], HTTPMiddleware = [] \<rparr>)
           \<lparr> HTTPListenPort := 8080, ServerGracefulShutdownTimeout := 2 * Second \<rparr>"

definition w0 :: world where
  "w0 = \<lparr> foreign_ports = [], open_listeners = [], next_lid = 0, registry = [],
           goroutines = [], clock = 0, timer = None, ctx_cancelled = False,
           grpc_phase = GIdle, http_phase = HIdle, phase = Idle, trace = [] \<rparr>"

definition ping :: handler where
  "ping rq = (ok_response ''pong'', [UserEvent ''ping''])"

definition get_ping :: request where
  "get_ping = \<lparr> req_method = ''GET'', req_path = ''/ping'', req_headers = [], req_body = [] \<rparr>"

definition w_busy :: world where
  "w_busy = w0 \<lparr> foreign_ports := [9095] \<rparr>"

section \<open>Notions used by the properties\<close>

fun succeeded :: "'a outcome \<Rightarrow> bool" where
  "succeeded (Ok s) = True"
| "succeeded r = False"

fun panicked :: "'a outcome \<Rightarrow> bool" where
  "panicked (Panic m) = True"
| "panicked r = False"

fun bind_failed :: "'a outcome \<Rightarrow> bool" where
  "bind_failed (Err e) = True"
| "bind_failed r = False"

fun outcome_server :: "'a outcome \<Rightarrow> 'a option" where
  "outcome_server (Ok s) = Some s"
| "outcome_server r = None"

definition bridge_registered :: "Server \<Rightarrow> bool" where
  "bridge_registered s = (bridge_method \<in> set (map fst (services (GRPC s))))"

text \<open>Two more configurations for a second server in the same process.\<close>

definition cfgB :: Config where
  "cfgB = cfg0 \<lparr> MetricsNamespace := ''batch'', HTTPListenPort := 8081, GRPCListenPort := 9096 \<rparr>"

definition cfgC :: Config where
  "cfgC = cfg0 \<lparr> HTTPListenPort := 8081, GRPCListenPort := 9096 \<rparr>"

text \<open>
  The events that \<^verbatim>\<open>Run\<close> added to the trace, with and without their times; the
  time at which \<^verbatim>\<open>Loop\<close> returns (the stop signal, or at once after \<^verbatim>\<open>Stop\<close>);
  whether both transports drain within a time budget, one after the other; the
  timeout that \<^verbatim>\<open>time.Sleep\<close> waits for (a negative duration returns at once).
\<close>

definition run_trace :: "world \<Rightarrow> world \<Rightarrow> (nat \<times> revent) list" where
  "run_trace w w' = drop (length (trace w)) (trace w')"


fun precedes :: "'a \<Rightarrow> 'a \<Rightarrow> 'a list \<Rightarrow> bool" where
  "precedes a b [] = False"
| "precedes a b (x # xs) = (if x = a then b \<in> set xs else precedes a b xs)"

definition stop_time :: "env \<Rightarrow> Server \<Rightarrow> world \<Rightarrow> nat option" where
  "stop_time e s w =
     (if quit (handler s) then Some (clock w)
      else map_option (max (clock w)) (stop_at e))"

definition drains_within :: "env \<Rightarrow> nat \<Rightarrow> bool" where
  "drains_within e n =
     (case (grpc_drain e, http_drain e) of
        (Some g, Some h) \<Rightarrow> g + h \<le> n
      | _ \<Rightarrow> False)"



text \<open>
  Surroundings for the concrete server: the stop signal arrives at time 100; the gRPC
  calls in flight need 3 and the HTTP connections need 1 to finish (\<open>e_quick\<close>), or
  the gRPC calls never finish (\<open>e_stuck\<close>).
\<close>

definition e_quick :: env where
  "e_quick = \<lparr> stop_at = Some 100, grpc_drain = Some 3, http_drain = Some 1 \<rparr>"


definition e_never :: env where
  "e_never = \<lparr> stop_at = None, grpc_drain = None, http_drain = None \<rparr>"

definition srv :: "Config \<Rightarrow> Server" where
  "srv c = the (outcome_server (fst (New x0 c w0)))"

definition booted :: "Config \<Rightarrow> world" where
  "booted c = snd (New x0 c w0)"

definition grace :: "Server \<Rightarrow> nat" where
  "grace s = nat (ServerGracefulShutdownTimeout (cfg s))"

definition with_bridge :: "Server \<Rightarrow> Server" where
  "with_bridge s = s \<lparr> GRPC := RegisterHTTPServer (GRPC s) httpgrpc_NewServer \<rparr>"

definition startup :: "world \<Rightarrow> nat \<Rightarrow> nat \<Rightarrow> (nat \<times> revent) list" where
  "startup w t0 f =
     [(clock w, SpawnHTTPServe), (clock w, BridgeRegistered), (clock w, SpawnGRPCServe),
      (t0, LoopReturned), (t0, SpawnTimer f), (t0, GracefulStopCalled)]"

text \<open>
  User-supplied wrappers for the concrete server: one that marks the trace before and
  after the handler it wraps, on either transport, and one that refuses every request
  without calling the handler it wraps.
\<close>

definition probe :: "string \<Rightarrow> http_middleware" where
  "probe a next rq =
     (let (rsp, evs) = next rq
      in (rsp, UserEvent (a @ ''-before'') # evs @ [UserEvent (a @ ''-after'')]))"

definition rpc_probe :: "string \<Rightarrow> unary_interceptor" where
  "rpc_probe a info next rq =
     (let (res, evs) = next rq
      in (res, UserEvent (a @ ''-before'') # evs @ [UserEvent (a @ ''-after'')]))"

definition deny :: http_middleware where
  "deny next rq =
     (\<lparr> resp_code = 401, resp_headers = [], resp_body = ''unauthorized'' \<rparr>, [])"

definition cfgP :: Config where
  "cfgP = cfg0 \<lparr> LogSuccess := True, HTTPMiddleware := [probe ''audit''],
                 GRPCMiddleware := [rpc_probe ''quota''] \<rparr>"

definition cfgD :: Config where
  "cfgD = cfg0 \<lparr> LogSuccess := True, HTTPMiddleware := [deny] \<rparr>"

text \<open>
  A wrapper is passive when it hands on the response of the handler it wraps, for the
  request it was given, and adds neither a sample nor a log line.
\<close>

definition passive_http :: "http_middleware \<Rightarrow> bool" where
  "passive_http m =
     (\<forall>next rq. fst (m next rq) = fst (next rq) \<and>
                samples (snd (m next rq)) = samples (snd (next rq)) \<and>
                log_lines (snd (m next rq)) = log_lines (snd (next rq)))"

definition passive_grpc :: "unary_interceptor \<Rightarrow> bool" where
  "passive_grpc i =
     (\<forall>info next rq. fst (i info next rq) = fst (next rq) \<and>
                samples (snd (i info next rq)) = samples (snd (next rq)) \<and>
                log_lines (snd (i info next rq)) = log_lines (snd (next rq)))"

text \<open>The server as it is after the user has registered the route \<^verbatim>\<open>/ping\<close>.\<close>

definition with_ping :: "Server \<Rightarrow> Server" where
  "with_ping s = s \<lparr> HTTP := Handle ''/ping'' ping (HTTP s) \<rparr>"

text \<open>
  The server of configuration \<open>c\<close>, with \<^verbatim>\<open>/ping\<close> registered, as \<^verbatim>\<open>Run\<close> leaves it.
\<close>

definition running :: "Config \<Rightarrow> Server" where
  "running c = fst (the (Run e_quick (with_ping (srv c)) (booted c)))"

section \<open>Properties\<close>

lemmas concrete_defs = cfg0_def w0_def x0_def RegisterFlags_def Second_def w_busy_def

lemmas New_defs = New_def Listen_def MustRegister_def port_in_use_def request_duration_def
  BuildFQName_def Let_def

subsection \<open>New\<close>

lemma Listen_Inr:
  "Listen p w = (Inr l, w') \<Longrightarrow>
     l = \<lparr> lid = next_lid w, lport = p \<rparr> \<and>
     w' = w \<lparr> open_listeners := open_listeners w @ [l], next_lid := Suc (next_lid w) \<rparr>"
  by (auto simp: Listen_def Let_def split: if_splits)

lemma Listen_Inl: "Listen p w = (Inl err, w') \<Longrightarrow> err = BindError p \<and> w' = w"
  by (auto simp: Listen_def Let_def split: if_splits)

lemma New_Ok:
  assumes "New x c w = (Ok s, w')"
  shows "\<exists>w1 w2.
      Listen (HTTPListenPort c) w = (Inr (httpListener s), w1) \<and>
      Listen (GRPCListenPort c) w1 = (Inr (grpcListener s), w2) \<and>
      MustRegister (request_duration c) w2 = Some w' \<and>
      cfg s = c \<and> handler s = signals_NewHandler \<and>
      HTTP s = initial_router x \<and>
      ReadTimeout (httpServer s) = HTTPServerReadTimeout c \<and>
      WriteTimeout (httpServer s) = HTTPServerWriteTimeout c \<and>
      IdleTimeout (httpServer s) = HTTPServerIdleTimeout c \<and>
      Handler (httpServer s) = (\<lambda>rt. Merge (httpMiddleware x c rt) (ServeHTTP rt)) \<and>
      interceptor (GRPC s) = ChainUnaryServer (grpcMiddleware c) \<and>
      services (GRPC s) = []"
  using assms
  by (auto simp: New_def split: prod.splits sum.splits option.splits)

text \<open>
  C2. When the HTTP port binds and the gRPC port does not, \<^verbatim>\<open>New\<close> returns the bind
  error and no server; the claim adds that the HTTP listener is closed first. Evaluated
  on the default ports 8080/9095 with 9095 held by another socket: \<^verbatim>\<open>New\<close> returns the
  error for port 9095, and the listener on port 8080 is still open afterwards, since the
  second \<^verbatim>\<open>return nil, err\<close> leaves without closing it.
\<close>

theorem New_leaks_http_listener:
  "fst (New x0 cfg0 w_busy) = Err (BindError 9095) \<and>
   open_listeners (snd (New x0 cfg0 w_busy)) = [\<lparr> lid = 0, lport = 8080 \<rparr>]"
  by (simp add: New_defs concrete_defs)

lemma New_snd_registry:
  "succeeded (fst (New x c w)) \<Longrightarrow> request_duration c \<in> set (registry (snd (New x c w)))"
  by (auto simp: New_def Listen_def MustRegister_def Let_def split: if_splits)

lemma New_not_Err_cases:
  "\<not> bind_failed (fst (New x c w)) \<Longrightarrow>
     panicked (fst (New x c w)) \<or> succeeded (fst (New x c w))"
  by (auto simp: New_def split: prod.splits sum.splits option.splits)

lemma New_duplicate:
  "request_duration c \<in> set (registry w) \<Longrightarrow> \<not> succeeded (fst (New x c w))"
  by (auto simp: New_def Listen_def MustRegister_def Let_def split: if_splits)

lemma New_cfg0: "snd (New x0 cfg0 w0) =
  w0 \<lparr> open_listeners := [\<lparr> lid = 0, lport = 8080 \<rparr>, \<lparr> lid = 1, lport = 9095 \<rparr>],
       next_lid := 2, registry := [''app_request_duration_seconds''] \<rparr>"
  by (simp add: New_defs concrete_defs)

text \<open>
  C9, as stated: a second call of \<^verbatim>\<open>New\<close> in the same process panics, whatever the
  two configurations. It does not: after a first server on the default configuration, a
  second one with another \<^verbatim>\<open>MetricsNamespace\<close> and other ports is built without a
  panic (the histogram's name begins with the namespace), and a second one with the same
  configuration returns the bind error of port 8080 before it reaches the registration.
\<close>

theorem second_New_counterexample:
  "succeeded (fst (New x0 cfg0 w0)) \<and>
   succeeded (fst (New x0 cfgB (snd (New x0 cfg0 w0)))) \<and>
   fst (New x0 cfg0 (snd (New x0 cfg0 w0))) = Err (BindError 8080)"
  by (simp add: New_cfg0) (simp add: New_defs concrete_defs cfgB_def)

text \<open>
  C9, amended: when a call of \<^verbatim>\<open>New\<close> has succeeded, a later call in the same process
  (the registry still holds what the first call registered) with the same
  \<^verbatim>\<open>MetricsNamespace\<close> panics as soon as both of its listeners bind.
\<close>

theorem second_New_same_namespace_panics:
  assumes "succeeded (fst (New x c1 w))"
      and "set (registry (snd (New x c1 w))) \<subseteq> set (registry w2)"
      and "MetricsNamespace c2 = MetricsNamespace c1"
      and "\<not> bind_failed (fst (New x c2 w2))"
    shows "panicked (fst (New x c2 w2))"
proof -
  have "request_duration c1 \<in> set (registry w2)"
    using assms(1,2) New_snd_registry by blast
  then have "request_duration c2 \<in> set (registry w2)"
    using assms(3) by (simp add: request_duration_def)
  then have "\<not> succeeded (fst (New x c2 w2))"
    by (rule New_duplicate)
  with New_not_Err_cases [OF assms(4)] show ?thesis by blast
qed

theorem second_New_same_namespace_panics_witness:
  "succeeded (fst (New x0 cfg0 w0)) \<and> panicked (fst (New x0 cfgC (snd (New x0 cfg0 w0))))"
proof -
  have h1: "succeeded (fst (New x0 cfg0 w0))"
    by (simp add: New_defs concrete_defs)
  have h2: "set (registry (snd (New x0 cfg0 w0))) \<subseteq> set (registry (snd (New x0 cfg0 w0)))"
    by simp
  have h3: "MetricsNamespace cfgC = MetricsNamespace cfg0"
    by (simp add: cfgC_def)
  have h4: "\<not> bind_failed (fst (New x0 cfgC (snd (New x0 cfg0 w0))))"
    by (simp add: New_cfg0) (simp add: New_defs concrete_defs cfgC_def)
  from second_New_same_namespace_panics [OF h1 h2 h3 h4] h1 show ?thesis by simp
qed

subsection \<open>Run\<close>

lemmas Run_defs = Run_def Loop_def GracefulStop_def Shutdown_def await_def timer_body_def
  emit_def go_def close_listener_def RegisterHTTPServer_def Let_def

lemma Run_graceful:
  assumes "stop_time e s w = Some t0" "grpc_drain e = Some g" "http_drain e = Some h"
    "g + h \<le> grace s"
  shows "\<exists>w'. Run e s w = Some (with_bridge s, w') \<and>
     trace w' = trace w @ startup w t0 (t0 + grace s) @
       [(t0 + g, GracefulStopReturned), (t0 + g, ShutdownCalled),
        (t0 + g + h, ShutdownReturned), (t0 + g + h, RunReturned)] \<and>
     clock w' = t0 + g + h \<and> timer w' = Some (t0 + grace s) \<and> \<not> ctx_cancelled w' \<and>
     grpc_phase w' = GStoppedGraceful \<and> http_phase w' = HDrained \<and> phase w' = Stopped \<and>
     ForcedStopTimer (t0 + grace s) \<in> set (goroutines w')"
  using assms
  by (cases "quit (handler s)"; cases "stop_at e")
     (simp_all add: Run_defs stop_time_def grace_def with_bridge_def startup_def)

lemma Run_forced_http:
  assumes "stop_time e s w = Some t0" "grpc_drain e = Some g" "g \<le> grace s"
    "\<not> drains_within e (grace s)"
  shows "\<exists>w'. Run e s w = Some (with_bridge s, w') \<and>
     trace w' = trace w @ startup w t0 (t0 + grace s) @
       [(t0 + g, GracefulStopReturned), (t0 + g, ShutdownCalled),
        (t0 + grace s, TimerCancel), (t0 + grace s, TimerGRPCStop),
        (t0 + grace s, ShutdownReturned), (t0 + grace s, RunReturned)] \<and>
     clock w' = t0 + grace s \<and> timer w' = None \<and> ctx_cancelled w' \<and>
     grpc_phase w' = GStoppedGraceful \<and> http_phase w' = HAbandoned \<and> phase w' = Stopped \<and>
     ForcedStopTimer (t0 + grace s) \<in> set (goroutines w')"
  using assms
  by (cases "quit (handler s)"; cases "stop_at e"; cases "http_drain e")
     (auto simp: Run_defs stop_time_def grace_def with_bridge_def startup_def
        drains_within_def)

lemma Run_forced_grpc:
  assumes "stop_time e s w = Some t0" "\<forall>g. grpc_drain e = Some g \<longrightarrow> grace s < g"
  shows "\<exists>w'. Run e s w = Some (with_bridge s, w') \<and>
     trace w' = trace w @ startup w t0 (t0 + grace s) @
       [(t0 + grace s, TimerCancel), (t0 + grace s, TimerGRPCStop),
        (t0 + grace s, GracefulStopReturned), (t0 + grace s, ShutdownCalled),
        (t0 + grace s, ShutdownReturned), (t0 + grace s, RunReturned)] \<and>
     clock w' = t0 + grace s \<and> timer w' = None \<and> ctx_cancelled w' \<and>
     grpc_phase w' = GStoppedForced \<and>
     http_phase w' = (if http_drain e = Some 0 then HDrained else HAbandoned) \<and>
     phase w' = Stopped \<and>
     ForcedStopTimer (t0 + grace s) \<in> set (goroutines w')"
  using assms
  by (cases "quit (handler s)"; cases "stop_at e"; cases "grpc_drain e")
     (auto simp: Run_defs stop_time_def grace_def with_bridge_def startup_def)

lemma Run_never: "stop_time e s w = None \<Longrightarrow> Run e s w = None"
  by (cases "quit (handler s)"; cases "stop_at e")
     (simp_all add: Run_def Loop_def stop_time_def Let_def)

lemma drain_cases:
  obtains (graceful) g h where "grpc_drain e = Some g" "http_drain e = Some h" "g + h \<le> n"
  | (forced_http) g where "grpc_drain e = Some g" "g \<le> n" "\<not> drains_within e n"
  | (forced_grpc) "\<forall>g. grpc_drain e = Some g \<longrightarrow> n < g"
proof (cases "grpc_drain e")
  case None
  then show ?thesis using forced_grpc by simp
next
  case (Some g)
  show ?thesis
  proof (cases "g \<le> n")
    case False
    then show ?thesis using forced_grpc Some by simp
  next
    case True
    show ?thesis
    proof (cases "drains_within e n")
      case False
      then show ?thesis using forced_http Some True by simp
    next
      case dw: True
      then obtain h where "http_drain e = Some h" "g + h \<le> n"
        using Some by (auto simp: drains_within_def split: option.splits)
      then show ?thesis using graceful Some by simp
    qed
  qed
qed

lemma Run_returns: "stop_time e s w = Some t0 \<Longrightarrow> \<exists>w'. Run e s w = Some (with_bridge s, w')"
  by (cases e "grace s" rule: drain_cases)
     (blast dest: Run_graceful Run_forced_http Run_forced_grpc)+

lemma Run_Some_stop_time: "Run e s w = Some (s', w') \<Longrightarrow> \<exists>t0. stop_time e s w = Some t0"
  using Run_never [of e s w] by (cases "stop_time e s w") simp_all

lemma Run_server: "Run e s w = Some (s', w') \<Longrightarrow> s' = with_bridge s"
  using Run_returns [of e s w] Run_Some_stop_time [of e s w s' w'] by auto

lemma run_trace_append [simp]: "run_trace w (v \<lparr> trace := trace w @ xs \<rparr>) = xs"
  by (simp add: run_trace_def)

lemma run_trace_eq: "trace w' = trace w @ xs \<Longrightarrow> run_trace w w' = xs"
  by (simp add: run_trace_def)

lemma Run_cases:
  assumes "Run e s w = Some (s', w')"
  obtains (graceful) t0 g h where
      "stop_time e s w = Some t0" "grpc_drain e = Some g" "http_drain e = Some h"
      "g + h \<le> grace s" "s' = with_bridge s"
      "run_trace w w' = startup w t0 (t0 + grace s) @
         [(t0 + g, GracefulStopReturned), (t0 + g, ShutdownCalled),
          (t0 + g + h, ShutdownReturned), (t0 + g + h, RunReturned)]"
      "clock w' = t0 + g + h" "timer w' = Some (t0 + grace s)" "\<not> ctx_cancelled w'"
      "grpc_phase w' = GStoppedGraceful" "http_phase w' = HDrained" "phase w' = Stopped"
      "ForcedStopTimer (t0 + grace s) \<in> set (goroutines w')"
      "length (trace w) \<le> length (trace w')"
  | (forced_http) t0 g where
      "stop_time e s w = Some t0" "grpc_drain e = Some g" "g \<le> grace s"
      "\<not> drains_within e (grace s)" "s' = with_bridge s"
      "run_trace w w' = startup w t0 (t0 + grace s) @
         [(t0 + g, GracefulStopReturned), (t0 + g, ShutdownCalled),
          (t0 + grace s, TimerCancel), (t0 + grace s, TimerGRPCStop),
          (t0 + grace s, ShutdownReturned), (t0 + grace s, RunReturned)]"
      "clock w' = t0 + grace s" "timer w' = None" "ctx_cancelled w'"
      "grpc_phase w' = GStoppedGraceful" "http_phase w' = HAbandoned" "phase w' = Stopped"
      "ForcedStopTimer (t0 + grace s) \<in> set (goroutines w')"
      "length (trace w) \<le> length (trace w')"
  | (forced_grpc) t0 where
      "stop_time e s w = Some t0" "\<forall>g. grpc_drain e = Some g \<longrightarrow> grace s < g"
      "s' = with_bridge s"
      "run_trace w w' = startup w t0 (t0 + grace s) @
         [(t0 + grace s, TimerCancel), (t0 + grace s, TimerGRPCStop),
          (t0 + grace s, GracefulStopReturned), (t0 + grace s, ShutdownCalled),
          (t0 + grace s, ShutdownReturned), (t0 + grace s, RunReturned)]"
      "clock w' = t0 + grace s" "timer w' = None" "ctx_cancelled w'"
      "grpc_phase w' = GStoppedForced"
      "http_phase w' = (if http_drain e = Some 0 then HDrained else HAbandoned)"
      "phase w' = Stopped"
      "ForcedStopTimer (t0 + grace s) \<in> set (goroutines w')"
      "length (trace w) \<le> length (trace w')"
proof -
  obtain t0 where t0: "stop_time e s w = Some t0"
    using Run_Some_stop_time [OF assms] by blast
  show ?thesis
  proof (cases e "grace s" rule: drain_cases)
    case (graceful g h)
    from Run_graceful [OF t0 graceful] assms show ?thesis
      by (intro that(1) [of t0 g h]) (auto simp: t0 graceful run_trace_def)
  next
    case (forced_http g)
    from Run_forced_http [OF t0 forced_http] assms show ?thesis
      by (intro that(2) [of t0 g]) (auto simp: t0 forced_http run_trace_def)
  next
    case forced_grpc
    from Run_forced_grpc [OF t0 forced_grpc] assms show ?thesis
      by (intro that(3) [of t0]) (auto simp: t0 forced_grpc run_trace_def)
  qed
qed

lemma booted_default_ports:
  assumes "HTTPListenPort c = 8080" "GRPCListenPort c = 9095"
  shows "New x0 c w0 = (Ok (srv c), booted c)"
    and "cfg (srv c) = c"
    and "handler (srv c) = signals_NewHandler"
    and "HTTP (srv c) = initial_router x0"
    and "services (GRPC (srv c)) = []"
    and "clock (booted c) = 0"
    and "trace (booted c) = []"
    and "goroutines (booted c) = []"
  using assms by (simp_all add: srv_def booted_def New_defs w0_def)

lemma cfg0_ports: "HTTPListenPort cfg0 = 8080" "GRPCListenPort cfg0 = 9095"
  "ServerGracefulShutdownTimeout cfg0 = 2000000000"
  by (simp_all add: concrete_defs)

lemma srv_cfg0 [simp]:
  "grace (srv cfg0) = 2000000000"
  "quit (handler (srv cfg0)) = False"
  "clock (booted cfg0) = 0"
  "trace (booted cfg0) = []"
  by (simp_all add: booted_default_ports cfg0_ports grace_def signals_NewHandler_def)


lemma Run_quick:
  "\<exists>w'. Run e_quick (srv cfg0) (booted cfg0) = Some (with_bridge (srv cfg0), w') \<and>
     trace w' =
       [(0, SpawnHTTPServe), (0, BridgeRegistered), (0, SpawnGRPCServe),
        (100, LoopReturned), (100, SpawnTimer 2000000100), (100, GracefulStopCalled),
        (103, GracefulStopReturned), (103, ShutdownCalled),
        (104, ShutdownReturned), (104, RunReturned)] \<and>
     clock w' = 104 \<and> timer w' = Some 2000000100 \<and> \<not> ctx_cancelled w'"
  using Run_graceful [of e_quick "srv cfg0" "booted cfg0" 100 3 1]
  by (auto simp: e_quick_def stop_time_def startup_def)





lemma advance_pending:
  assumes "timer v = Some f" "f \<le> t" "clock v \<le> f"
  shows "timer (advance t s v) = None \<and> ctx_cancelled (advance t s v) \<and>
         trace (advance t s v) = trace v @ [(f, TimerCancel), (f, TimerGRPCStop)] \<and>
         clock (advance t s v) = t"
  using assms by (simp add: advance_def timer_body_def emit_def close_listener_def Let_def)

lemma advance_fired:
  assumes "timer v = None"
  shows "timer (advance t s v) = None \<and> ctx_cancelled (advance t s v) = ctx_cancelled v \<and>
         trace (advance t s v) = trace v"
  using assms by (simp add: advance_def)

text \<open>
  C10. Every \<^verbatim>\<open>Run\<close> that gets past \<^verbatim>\<open>Loop\<close> starts the timer goroutine, right
  after \<^verbatim>\<open>Loop\<close> has returned at \<open>t0\<close>, whatever happens next. Once the time
  \<open>t0 + timeout\<close> has come, the goroutine has cancelled the HTTP shutdown context and
  called \<^verbatim>\<open>GRPC.Stop\<close>. When both transports drain within the timeout, \<^verbatim>\<open>Run\<close> has
  returned by then with the timer still pending, and the two calls happen after the
  return.
\<close>

theorem Run_timer_unconditional:
  assumes "Run e s w = Some (s', w')"
  shows "\<exists>t0. stop_time e s w = Some t0 \<and>
           precedes (t0, LoopReturned) (t0, SpawnTimer (t0 + grace s)) (run_trace w w') \<and>
           ForcedStopTimer (t0 + grace s) \<in> set (goroutines w') \<and>
           (\<forall>t \<ge> t0 + grace s.
              timer (advance t s' w') = None \<and> ctx_cancelled (advance t s' w') \<and>
              precedes (t0 + grace s, TimerCancel) (t0 + grace s, TimerGRPCStop)
                (run_trace w (advance t s' w'))) \<and>
           (drains_within e (grace s) \<longrightarrow>
              clock w' \<le> t0 + grace s \<and> timer w' = Some (t0 + grace s) \<and>
              \<not> ctx_cancelled w' \<and> last (run_trace w w') = (clock w', RunReturned) \<and>
              (\<forall>t \<ge> t0 + grace s.
                 run_trace w (advance t s' w') =
                   run_trace w w' @ [(t0 + grace s, TimerCancel), (t0 + grace s, TimerGRPCStop)]))"
  using assms
proof (cases rule: Run_cases)
  case (graceful t0 g h)
  have adv: "t0 + grace s \<le> t \<Longrightarrow>
      timer (advance t s' w') = None \<and> ctx_cancelled (advance t s' w') \<and>
      trace (advance t s' w') = trace w' @ [(t0 + grace s, TimerCancel), (t0 + grace s, TimerGRPCStop)]"
    for t
    using advance_pending [of w' "t0 + grace s" t s'] graceful(4,7,8) by simp
  have rt: "t0 + grace s \<le> t \<Longrightarrow>
      run_trace w (advance t s' w') =
        run_trace w w' @ [(t0 + grace s, TimerCancel), (t0 + grace s, TimerGRPCStop)]" for t
    using adv [of t] graceful(14) by (simp add: run_trace_def)
  show ?thesis
    using graceful(1-4,6-9,13) adv rt
    by (simp add: startup_def drains_within_def)
next
  case (forced_http t0 g)
  have "run_trace w (advance t s' w') = run_trace w w'" for t
    using advance_fired [of w' t s'] forced_http(8) by (simp add: run_trace_def)
  then show ?thesis
    using forced_http(1-4,6-9,13) advance_fired [of w' _ s'] by (simp add: startup_def)
next
  case (forced_grpc t0)
  have "run_trace w (advance t s' w') = run_trace w w'" for t
    using advance_fired [of w' t s'] forced_grpc(6) by (simp add: run_trace_def)
  moreover have "\<not> drains_within e (grace s)"
    using forced_grpc(2) by (auto simp: drains_within_def split: option.splits)
  ultimately show ?thesis
    using forced_grpc(1,4-7,11) advance_fired [of w' _ s'] by (simp add: startup_def)
qed

theorem Run_timer_unconditional_witness:
  "Run e_quick (srv cfg0) (booted cfg0) \<noteq> None \<and>
   drains_within e_quick (grace (srv cfg0)) \<and>
   clock (snd (the (Run e_quick (srv cfg0) (booted cfg0)))) = 104 \<and>
   timer (snd (the (Run e_quick (srv cfg0) (booted cfg0)))) = Some 2000000100 \<and>
   run_trace (booted cfg0)
     (advance 2000000100 (with_bridge (srv cfg0))
        (snd (the (Run e_quick (srv cfg0) (booted cfg0))))) =
     run_trace (booted cfg0) (snd (the (Run e_quick (srv cfg0) (booted cfg0))))
       @ [(2000000100, TimerCancel), (2000000100, TimerGRPCStop)]"
proof -
  obtain w' where r: "Run e_quick (srv cfg0) (booted cfg0) = Some (with_bridge (srv cfg0), w')"
    and c: "clock w' = 104"
    using Run_quick by blast
  have st: "stop_time e_quick (srv cfg0) (booted cfg0) = Some 100"
    by (simp add: stop_time_def e_quick_def)
  have dw: "drains_within e_quick (grace (srv cfg0))"
    by (simp add: drains_within_def e_quick_def)
  from Run_timer_unconditional [OF r] st dw r c show ?thesis
    by simp
qed


subsection \<open>The chains\<close>

lemma Merge_append: "Merge (ms @ ns) next = Merge ms (Merge ns next)"
  by (induction ms) simp_all

lemma Chain_append:
  "ChainUnaryServer (is @ js) info next = ChainUnaryServer is info (ChainUnaryServer js info next)"
  by (induction "is") simp_all

text \<open>
  C4. The chain builder applied to \<open>[A, B]\<close> and the base handler \<open>H\<close> is
  \<open>A\<close> around \<open>B\<close> around \<open>H\<close>: the first entry is the outermost wrapper. With two
  wrappers that mark the trace before and after the handler they wrap, the trace of any
  request reads \<open>a\<close>-before, \<open>b\<close>-before, what \<open>H\<close> emits, \<open>b\<close>-after, \<open>a\<close>-after.
  The chain builder is the one modelled from the specification.
\<close>

theorem Merge_call_order:
  "Merge [A, B] H = A (B H) \<and>
   Merge [probe a, probe b] H rq =
     (fst (H rq),
      [UserEvent (a @ ''-before''), UserEvent (b @ ''-before'')] @ snd (H rq)
        @ [UserEvent (b @ ''-after''), UserEvent (a @ ''-after'')])"
  by (simp add: probe_def split_beta)

text \<open>
  C5. On both transports the chain that \<^verbatim>\<open>New\<close> builds is the list of the three
  built-in entries, logging, then instrumentation, then tracing, followed by the
  user-supplied entries of the configuration; so logging is outermost and the
  user-supplied entries wrap the base handler most tightly.
\<close>

theorem New_chains:
  assumes "New x c w = (Ok s, w')"
  shows "Handler (httpServer s) rt =
           Merge ([Log_Wrap (is_failure x) (LogSuccess c),
                   Instrument_Wrap (request_duration c) rt,
                   Tracing_Wrap] @ HTTPMiddleware c) (ServeHTTP rt) \<and>
         Handler (httpServer s) rt =
           Log_Wrap (is_failure x) (LogSuccess c)
             (Instrument_Wrap (request_duration c) rt
               (Tracing_Wrap (Merge (HTTPMiddleware c) (ServeHTTP rt)))) \<and>
         interceptor (GRPC s) =
           ChainUnaryServer ([ServerLoggingInterceptor (LogSuccess c),
                              ServerInstrumentInterceptor (request_duration c),
                              OpenTracingServerInterceptor] @ GRPCMiddleware c) \<and>
         interceptor (GRPC s) info h =
           ServerLoggingInterceptor (LogSuccess c) info
             (ServerInstrumentInterceptor (request_duration c) info
               (OpenTracingServerInterceptor info
                 (ChainUnaryServer (GRPCMiddleware c) info h)))"
  using New_Ok [OF assms]
  by (auto simp: httpMiddleware_def grpcMiddleware_def)

lemma cfgP_ports: "HTTPListenPort cfgP = 8080" "GRPCListenPort cfgP = 9095"
  by (simp_all add: cfgP_def concrete_defs)

lemma cfgD_ports: "HTTPListenPort cfgD = 8080" "GRPCListenPort cfgD = 9095"
  by (simp_all add: cfgD_def concrete_defs)

lemma ping_route:
  "route_match (Handle ''/ping'' ping (initial_router x0)) get_ping = Some (Path ''/ping'', ping)"
  by (simp add: initial_router_def Handle_def PathPrefix_Handler_def NewRouter_def get_ping_def)

lemma ping_served [simp]:
  "ServeHTTP (Handle ''/ping'' ping (initial_router x0)) get_ping =
     (ok_response ''pong'', [UserEvent ''ping''])"
  "route_template (Handle ''/ping'' ping (initial_router x0)) get_ping = ''/ping''"
  by (simp_all add: ServeHTTP_def route_template_def ping_route ping_def)

lemma cfgP_fields [simp]:
  "LogSuccess cfgP = True"
  "HTTPMiddleware cfgP = [probe ''audit'']"
  "GRPCMiddleware cfgP = [rpc_probe ''quota'']"
  "request_duration cfgP = ''app_request_duration_seconds''"
  by (simp_all add: cfgP_def concrete_defs request_duration_def BuildFQName_def)

lemma get_ping_fields [simp]:
  "req_method get_ping = ''GET''" "req_path get_ping = ''/ping''" "is_ws get_ping = False"
  by (simp_all add: get_ping_def is_ws_def)

lemma x0_failure [simp]: "is_failure x0 code = (500 \<le> code)"
  by (simp add: x0_def)

theorem New_chains_witness:
  "New x0 cfgP w0 = (Ok (srv cfgP), booted cfgP) \<and>
   Handler (httpServer (srv cfgP)) (Handle ''/ping'' ping (initial_router x0)) get_ping =
     (ok_response ''pong'',
      [SpanStart ''HTTP GET'', UserEvent ''audit-before'', UserEvent ''ping'',
       UserEvent ''audit-after'', SpanFinish ''HTTP GET'',
       Sample ''app_request_duration_seconds'' ''GET'' ''/ping'' (HTTPStatus 200) False,
       LogLine ''GET'' ''/ping'' (HTTPStatus 200)])"
proof -
  have h: "New x0 cfgP w0 = (Ok (srv cfgP), booted cfgP)"
    by (rule booted_default_ports(1) [OF cfgP_ports])
  have "Handler (httpServer (srv cfgP)) (Handle ''/ping'' ping (initial_router x0)) =
          Log_Wrap (is_failure x0) (LogSuccess cfgP)
            (Instrument_Wrap (request_duration cfgP) (Handle ''/ping'' ping (initial_router x0))
              (Tracing_Wrap (Merge (HTTPMiddleware cfgP)
                 (ServeHTTP (Handle ''/ping'' ping (initial_router x0))))))"
    using New_chains [OF h] by blast
  then show ?thesis
    using h
    by (simp add: Log_Wrap_def Instrument_Wrap_def Tracing_Wrap_def probe_def ok_response_def)
qed

subsection \<open>The bridge\<close>

lemma Log_Wrap_obs:
  "fst (Log_Wrap f b h rq) = fst (h rq)"
  "samples (snd (Log_Wrap f b h rq)) = samples (snd (h rq))"
  "length (log_lines (snd (Log_Wrap f b h rq))) =
     length (log_lines (snd (h rq))) + (if b \<or> f (resp_code (fst (h rq))) then 1 else 0)"
  by (simp_all add: Log_Wrap_def split_beta samples_def log_lines_def)

lemma Instrument_Wrap_obs:
  "fst (Instrument_Wrap d r h rq) = fst (h rq)"
  "length (samples (snd (Instrument_Wrap d r h rq))) = Suc (length (samples (snd (h rq))))"
  "log_lines (snd (Instrument_Wrap d r h rq)) = log_lines (snd (h rq))"
  by (simp_all add: Instrument_Wrap_def split_beta samples_def log_lines_def)

lemma Tracing_Wrap_obs:
  "fst (Tracing_Wrap h rq) = fst (h rq)"
  "samples (snd (Tracing_Wrap h rq)) = samples (snd (h rq))"
  "log_lines (snd (Tracing_Wrap h rq)) = log_lines (snd (h rq))"
  by (simp_all add: Tracing_Wrap_def split_beta samples_def log_lines_def)

lemma ServerLoggingInterceptor_obs:
  "fst (ServerLoggingInterceptor b info h rq) = fst (h rq)"
  "samples (snd (ServerLoggingInterceptor b info h rq)) = samples (snd (h rq))"
  "length (log_lines (snd (ServerLoggingInterceptor b info h rq))) =
     length (log_lines (snd (h rq))) + (if b \<or> rpc_label (fst (h rq)) = RPCError then 1 else 0)"
  by (simp_all add: ServerLoggingInterceptor_def split_beta samples_def log_lines_def)

lemma ServerInstrumentInterceptor_obs:
  "fst (ServerInstrumentInterceptor d info h rq) = fst (h rq)"
  "length (samples (snd (ServerInstrumentInterceptor d info h rq))) =
     Suc (length (samples (snd (h rq))))"
  "log_lines (snd (ServerInstrumentInterceptor d info h rq)) = log_lines (snd (h rq))"
  by (simp_all add: ServerInstrumentInterceptor_def split_beta samples_def log_lines_def)

lemma OpenTracingServerInterceptor_obs:
  "fst (OpenTracingServerInterceptor info h rq) = fst (h rq)"
  "samples (snd (OpenTracingServerInterceptor info h rq)) = samples (snd (h rq))"
  "log_lines (snd (OpenTracingServerInterceptor info h rq)) = log_lines (snd (h rq))"
  by (simp_all add: OpenTracingServerInterceptor_def split_beta samples_def log_lines_def)

lemma httpgrpc_NewServer_obs:
  "fst (httpgrpc_NewServer rt rq) = Inr (fst (ServeHTTP rt rq))"
  "snd (httpgrpc_NewServer rt rq) = snd (ServeHTTP rt rq)"
  by (simp_all add: httpgrpc_NewServer_def split_beta)

lemma Merge_passive:
  assumes "\<forall>m \<in> set ms. passive_http m"
  shows "fst (Merge ms h rq) = fst (h rq) \<and>
         samples (snd (Merge ms h rq)) = samples (snd (h rq)) \<and>
         log_lines (snd (Merge ms h rq)) = log_lines (snd (h rq))"
  using assms
proof (induction ms)
  case Nil
  then show ?case by simp
next
  case (Cons m ms)
  then have "passive_http m" by simp
  then have "fst (m (Merge ms h) rq) = fst (Merge ms h rq) \<and>
         samples (snd (m (Merge ms h) rq)) = samples (snd (Merge ms h rq)) \<and>
         log_lines (snd (m (Merge ms h) rq)) = log_lines (snd (Merge ms h rq))"
    unfolding passive_http_def by blast
  with Cons show ?case by simp
qed

lemma Chain_passive:
  assumes "\<forall>i \<in> set is. passive_grpc i"
  shows "fst (ChainUnaryServer is info h rq) = fst (h rq) \<and>
         samples (snd (ChainUnaryServer is info h rq)) = samples (snd (h rq)) \<and>
         log_lines (snd (ChainUnaryServer is info h rq)) = log_lines (snd (h rq))"
  using assms
proof (induction "is")
  case Nil
  then show ?case by simp
next
  case (Cons i "is")
  then have "passive_grpc i" by simp
  then have "fst (i info (ChainUnaryServer is info h) rq) = fst (ChainUnaryServer is info h rq) \<and>
         samples (snd (i info (ChainUnaryServer is info h) rq)) =
           samples (snd (ChainUnaryServer is info h rq)) \<and>
         log_lines (snd (i info (ChainUnaryServer is info h) rq)) =
           log_lines (snd (ChainUnaryServer is info h rq))"
    unfolding passive_grpc_def by blast
  with Cons show ?case by simp
qed

lemma passive_probe: "passive_http (probe a)" "passive_grpc (rpc_probe a)"
  by (simp_all add: passive_http_def passive_grpc_def probe_def rpc_probe_def split_beta
        samples_def log_lines_def)

lemma serve_after_Run:
  assumes "New x c w = (Ok s0, w1)" and "Run e (s0 \<lparr> HTTP := rt \<rparr>) w2 = Some (s, w3)"
  shows "serve_grpc s bridge_method rq =
           ChainUnaryServer (grpcMiddleware c) bridge_method (httpgrpc_NewServer rt) rq"
    and "serve_http s rq = Merge (httpMiddleware x c rt) (ServeHTTP rt) rq"
    and "HTTP s = rt"
  using New_Ok [OF assms(1)] Run_server [OF assms(2)]
  by (auto simp: serve_grpc_def serve_http_def with_bridge_def RegisterHTTPServer_def)

text \<open>
  C1, amended. Take the server that \<^verbatim>\<open>New\<close> built, with whatever routes were
  registered on its router since, once \<^verbatim>\<open>Run\<close> has registered the bridge. A bridge call
  goes through the gRPC interceptor chain to the router itself, the same router that the
  HTTP handler wraps, and through no HTTP middleware, built-in or user-supplied. When the
  user-supplied wrappers of both transports are passive, the response of the bridge call
  is the response of the same request on the HTTP listener, the call records exactly one
  sample more than the route's own handler does (as the request on the HTTP listener
  does), and it logs one line when \<^verbatim>\<open>LogSuccess\<close> is set and none otherwise.
\<close>

theorem bridge_dispatch:
  assumes "New x c w = (Ok s0, w1)"
      and "Run e (s0 \<lparr> HTTP := rt \<rparr>) w2 = Some (s, w3)"
      and "\<forall>m \<in> set (HTTPMiddleware c). passive_http m"
      and "\<forall>i \<in> set (GRPCMiddleware c). passive_grpc i"
  shows "serve_grpc s bridge_method rq =
           ChainUnaryServer (grpcMiddleware c) bridge_method (httpgrpc_NewServer (HTTP s)) rq \<and>
         serve_http s rq = Merge (httpMiddleware x c (HTTP s)) (ServeHTTP (HTTP s)) rq \<and>
         fst (serve_grpc s bridge_method rq) = Inr (fst (serve_http s rq)) \<and>
         length (samples (snd (serve_grpc s bridge_method rq))) =
           Suc (length (samples (snd (ServeHTTP (HTTP s) rq)))) \<and>
         length (samples (snd (serve_http s rq))) =
           Suc (length (samples (snd (ServeHTTP (HTTP s) rq)))) \<and>
         length (log_lines (snd (serve_grpc s bridge_method rq))) =
           length (log_lines (snd (ServeHTTP (HTTP s) rq))) + (if LogSuccess c then 1 else 0)"
proof -
  note sv = serve_after_Run [OF assms(1,2)]
  note mp = Merge_passive [OF assms(3)]
  note cp = Chain_passive [OF assms(4)]
  show ?thesis
    by (simp add: sv grpcMiddleware_def httpMiddleware_def Merge_append Chain_append
          Log_Wrap_obs Instrument_Wrap_obs Tracing_Wrap_obs ServerLoggingInterceptor_obs
          ServerInstrumentInterceptor_obs OpenTracingServerInterceptor_obs mp cp
          httpgrpc_NewServer_obs)
qed

end
